theory Spec2Isabelle
  imports Complex_Main
begin

section \<open>Values and objects of the player\<close>

text \<open>
  The player (class \<open>Player\<close>, 510 lines of JavaScript) keeps a list of \<open>Queue\<close> objects,
  one per guild, and drives one stream per queue.  A slot that JavaScript may leave
  \<open>undefined\<close> or \<open>null\<close> is a \<open>jsv\<close>; only \<open>Obj\<close> is truthy.
\<close>

datatype 'a jsv = Undefined | Null | Obj 'a

fun truthy :: "'a jsv \<Rightarrow> bool" where
  "truthy (Obj _) = True"
| "truthy _ = False"

section \<open>JavaScript numbers\<close>

text \<open>
  A finite JavaScript number is the rational it denotes.  \<open>x / y\<close> is the binary64 value
  nearest to the exact quotient, ties to the even significand: \<open>floor_log2\<close> finds the
  binade of a positive rational, and the quotient is rounded to a multiple of the unit
  in the last place of that binade (of the smallest binade below \<open>2^-1022\<close>).  The
  quotients taken here are of numbers by 200 and by 1000, which do not overflow.
\<close>

function bit_length :: "int \<Rightarrow> int" where
  "bit_length k = (if k \<le> 0 then 0 else 1 + bit_length (k div 2))"
  by pat_completeness auto
termination
  by (relation "measure nat") auto

declare bit_length.simps [simp del]

definition pow2 :: "int \<Rightarrow> rat" where
  "pow2 e = (if 0 \<le> e then 2 ^ nat e else 1 / 2 ^ nat (- e))"

definition floor_log2 :: "rat \<Rightarrow> int" where
  "floor_log2 x =
     (let (n, d) = quotient_of x;
          e = bit_length n - bit_length d
      in if x < pow2 e then e - 1 else e)"

definition round_half_even :: "rat \<Rightarrow> int" where
  "round_half_even x =
     (let f = \<lfloor>x\<rfloor>; d = x - of_int f
      in if d < 1 / 2 then f else if 1 / 2 < d then f + 1 else if even f then f else f + 1)"

definition to_double :: "rat \<Rightarrow> rat" where
  "to_double x =
     (if x = 0 then 0
      else (let a = \<bar>x\<bar>; e = max (floor_log2 a) (- 1022); u = pow2 (e - 52)
            in sgn x * of_int (round_half_even (a / u)) * u))"

definition js_div :: "rat \<Rightarrow> rat \<Rightarrow> rat" where
  "js_div x y = to_double (x / y)"

section \<open>Objects of the player\<close>

type_synonym snowflake = nat
type_synonym user = string

text \<open>
  A \<open>Track\<close> object.  The class (\<open>./Track\<close>) is not among the sources; the player reads
  \<open>url\<close> and writes \<open>requestedBy\<close>.  \<open>ref\<close> is the identity of the object: \<open>===\<close> on two
  tracks compares nothing else.
\<close>

record track =
  ref :: nat
  url :: string
  requestedBy :: "user option"

fun strict_eq :: "track jsv \<Rightarrow> track jsv \<Rightarrow> bool" where
  "strict_eq (Obj a) (Obj b) = (ref a = ref b)"
| "strict_eq Undefined Undefined = True"
| "strict_eq Null Null = True"
| "strict_eq _ _ = False"

text \<open>What \<open>ytdl(url, {filter, opusEncoded, encoderArgs, seek})\<close> is asked to produce.\<close>

record stream =
  s_url :: string
  encoderArgs :: "string list"
  seek :: "rat option"

text \<open>
  The callback that \<open>_playTrack\<close> chains on the promise of \<open>_playYTDLStream\<close> (lines
  501-506) closes over \<open>firstPlay\<close>, \<open>nowPlaying\<close> and \<open>wasPlaying\<close>.
\<close>

record cont =
  c_firstPlay :: bool
  c_nowPlaying :: "track jsv"
  c_wasPlaying :: "track jsv"

text \<open>
  The dispatcher of a voice connection (discord.js): the stream it plays, the elapsed
  \<open>streamTime\<close> in milliseconds, the last argument of \<open>setVolumeLogarithmic\<close>, whether
  \<open>pause()\<close> or \<open>end()\<close> was called, whether its \<open>start\<close> event has fired, and the
  continuation waiting for that event.
\<close>

record dispatcher =
  d_stream :: stream
  streamTime :: int
  volumeLogarithmic :: rat
  d_paused :: bool
  ended :: bool
  started :: bool
  then_cb :: "cont option"

record channel =
  ch_id :: snowflake
  members_size :: nat

record voiceConnection =
  channel :: channel
  dispatcher :: "dispatcher option"

text \<open>
  A \<open>Queue\<close> object with the fields the player reads and writes.  \<open>filters\<close> is a
  JavaScript object from filter names to toggles, kept as an association list in
  insertion order, which is the order of \<open>Object.keys\<close>.
\<close>

record queue =
  guildID :: snowflake
  voiceConnection :: voiceConnection
  filters :: "(string \<times> bool) list"
  tracks :: "track jsv list"
  playing :: "track jsv"
  volume :: int
  paused :: bool
  stopped :: bool
  repeatMode :: bool
  lastSkipped :: bool

record playerOptions =
  leaveOnEnd :: bool
  leaveOnStop :: bool
  leaveOnEmpty :: bool

datatype event =
  TrackChanged "track jsv" "track jsv" bool bool
| Stop
| End
| ChannelEmpty

text \<open>
  What the player does to the outside: an event emitted on a queue object, a voice
  channel left, a stream requested from \<open>ytdl\<close>.
\<close>

datatype effect =
  Emit nat event
| Leave snowflake
| Ytdl stream

text \<open>A pending \<open>setTimeout\<close> callback of \<open>_playYTDLStream\<close> (lines 455-469).\<close>

record timer =
  t_queue :: nat
  t_stream :: stream
  t_cont :: "cont option"

text \<open>
  The player and what surrounds it.  \<open>queues\<close> is \<open>this.queues\<close>, a list of references
  to queue objects; \<open>store\<close> holds the objects (a queue taken out of \<open>this.queues\<close> is
  still in the store, where closures reach it); \<open>fresh\<close> is the next unused reference;
  \<open>timers\<close> are the timeouts not yet fired, oldest first; \<open>trace\<close> records the effects.
\<close>

record player =
  queues :: "nat list"
  options :: playerOptions
  store :: "nat \<Rightarrow> queue"
  fresh :: nat
  timers :: "timer list"
  trace :: "effect list"

datatype error = NotPlaying | TrackNotFound | TypeError

text \<open>
  How a call ends: the promise resolves, it rejects, it never settles, or the call
  throws before a promise exists.
\<close>

datatype 'a outcome = Resolved 'a | Rejected error | Pending | Thrown error

section \<open>Helpers\<close>

text \<open>\<open>this.queues.find((g) => g.guildID === guildID)\<close>.\<close>

definition find_queue :: "player \<Rightarrow> snowflake \<Rightarrow> nat option" where
  "find_queue p g = find (\<lambda>r. guildID (store p r) = g) (queues p)"

definition modify :: "nat \<Rightarrow> (queue \<Rightarrow> queue) \<Rightarrow> player \<Rightarrow> player" where
  "modify r f p = p\<lparr>store := (store p)(r := f (store p r))\<rparr>"

definition set_dispatcher :: "dispatcher \<Rightarrow> queue \<Rightarrow> queue" where
  "set_dispatcher d q = q\<lparr>voiceConnection := (voiceConnection q)\<lparr>dispatcher := Some d\<rparr>\<rparr>"

definition emit :: "nat \<Rightarrow> event \<Rightarrow> player \<Rightarrow> player" where
  "emit r e p = p\<lparr>trace := trace p @ [Emit r e]\<rparr>"

definition leave :: "nat \<Rightarrow> player \<Rightarrow> player" where
  "leave r p = p\<lparr>trace := trace p @ [Leave (ch_id (channel (voiceConnection (store p r))))]\<rparr>"

text \<open>\<open>xs[i]\<close>: \<open>undefined\<close> outside the array.\<close>

definition js_at :: "'a jsv list \<Rightarrow> int \<Rightarrow> 'a jsv" where
  "js_at xs i = (if 0 \<le> i \<and> i < int (length xs) then xs ! nat i else Undefined)"

text \<open>\<open>xs.shift()\<close>: the head and the rest; \<open>undefined\<close> from an empty array.\<close>

definition shift :: "'a jsv list \<Rightarrow> 'a jsv \<times> 'a jsv list" where
  "shift xs = (case xs of [] \<Rightarrow> (Undefined, []) | x # rest \<Rightarrow> (x, rest))"

fun join :: "string \<Rightarrow> string list \<Rightarrow> string" where
  "join sep [] = []"
| "join sep [x] = x"
| "join sep (x # y # ys) = x @ sep @ join sep (y # ys)"

text \<open>The table \<open>filters\<close> of lines 8-21 (the name \<open>filters\<close> is the queue's field here).\<close>

definition ffmpeg_filters :: "(string \<times> string) list" where
  "ffmpeg_filters =
    [(''bassboost'', ''bass=g=20,dynaudnorm=f=200''),
     (''8D'', ''apulsator=hz=0.128''),
     (''vaporwave'', ''asetrate=441000*.8,aresample=44100,atempo=1.1''),
     (''nightcore'', ''asetrate=441001*.25''),
     (''phaser'', ''aphaser=in_gain=0.4''),
     (''tremolo'', ''tremolo=f=6.5''),
     (''reverse'', ''areverse''),
     (''treble'', ''treble=g={GAIN}''),
     (''normalizer'', ''dynaudnorm=f=150''),
     (''surrounding'', ''surround''),
     (''pulsator'', ''apulsator=hz=1''),
     (''subboost'', ''asubboost'')]"

definition defaultPlayerOptions :: playerOptions where
  "defaultPlayerOptions = \<lparr>leaveOnEnd = True, leaveOnStop = True, leaveOnEmpty = True\<rparr>"

text \<open>
  A JavaScript object with string keys is the list of its own properties in the order
  of their creation (where a key stands twice in a list, the first entry is the
  property).  \<open>Object.keys\<close> lists the keys that are array indices first, in ascending
  order, and then the other keys in the order of creation.  An array index is the
  decimal numeral, without leading zero, of a number up to \<open>2^32 - 2\<close>.
\<close>

definition digit :: "char \<Rightarrow> int option" where
  "digit c = map_of (zip ''0123456789'' [0, 1, 2, 3, 4, 5, 6, 7, 8, 9]) c"

definition array_index :: "string \<Rightarrow> int option" where
  "array_index s =
     (if s = [] then None
      else if list_ex (\<lambda>c. digit c = None) s then None
      else if 1 < length s \<and> hd s = CHR ''0'' then None
      else (let n = foldl (\<lambda>a c. case digit c of None \<Rightarrow> a | Some d \<Rightarrow> 10 * a + d) 0 s
            in if n \<le> 4294967294 then Some n else None))"

definition own_keys :: "(string \<times> 'v) list \<Rightarrow> string list" where
  "own_keys obj =
     (let ks = remdups (map fst obj)
      in map snd (sort_key fst
                    (concat (map (\<lambda>k. case array_index k of None \<Rightarrow> [] | Some n \<Rightarrow> [(n, k)]) ks)))
         @ filter (\<lambda>k. array_index k = None) ks)"

text \<open>
  \<open>obj[key] = value\<close> on a plain object, for a value that is not an object: an own
  property keeps its place and takes the value; a new key is added last; the key
  \<open>__proto__\<close>, when it is not an own property, reaches the setter of
  \<open>Object.prototype\<close>, which ignores such a value.
\<close>

fun assign :: "string \<Rightarrow> 'v \<Rightarrow> (string \<times> 'v) list \<Rightarrow> (string \<times> 'v) list" where
  "assign k v [] = [(k, v)]"
| "assign k v ((k', v') # kvs) = (if k' = k then (k, v) # kvs else (k', v') # assign k v kvs)"

definition js_set :: "string \<Rightarrow> 'v \<Rightarrow> (string \<times> 'v) list \<Rightarrow> (string \<times> 'v) list" where
  "js_set k v obj = (if k = ''__proto__'' \<and> map_of obj k = None then obj else assign k v obj)"

text \<open>
  Lines 82-84: for every key of \<open>newFilters\<close>, \<open>queue.filters[key] = newFilters[key]\<close>.
\<close>

definition merge_filters :: "(string \<times> bool) list \<Rightarrow> (string \<times> bool) list \<Rightarrow> (string \<times> bool) list" where
  "merge_filters newFilters fs =
     foldl (\<lambda>acc filterName.
        case map_of newFilters filterName of None \<Rightarrow> acc | Some v \<Rightarrow> js_set filterName v acc)
       fs (own_keys newFilters)"

text \<open>
  \<open>filters[filterName]\<close> on the table, line 440: a string of the table, or else a member
  that the table inherits from \<open>Object.prototype\<close> (a built-in function, or the
  prototype object itself under \<open>__proto__\<close>), or else \<open>undefined\<close>.  \<open>to_text\<close> is what
  \<open>join\<close> makes of each (line 447), with the text that V8 gives a built-in function.
\<close>

datatype member = Str string | Builtin string | PrototypeObject | NoMember

definition Object_prototype :: "(string \<times> member) list" where
  "Object_prototype =
    [(''constructor'', Builtin ''Object''),
     (''__defineGetter__'', Builtin ''__defineGetter__''),
     (''__defineSetter__'', Builtin ''__defineSetter__''),
     (''hasOwnProperty'', Builtin ''hasOwnProperty''),
     (''__lookupGetter__'', Builtin ''__lookupGetter__''),
     (''__lookupSetter__'', Builtin ''__lookupSetter__''),
     (''isPrototypeOf'', Builtin ''isPrototypeOf''),
     (''propertyIsEnumerable'', Builtin ''propertyIsEnumerable''),
     (''toString'', Builtin ''toString''),
     (''valueOf'', Builtin ''valueOf''),
     (''__proto__'', PrototypeObject),
     (''toLocaleString'', Builtin ''toLocaleString'')]"

definition filters_get :: "string \<Rightarrow> member" where
  "filters_get filterName =
     (case map_of ffmpeg_filters filterName of
        Some s \<Rightarrow> Str s
      | None \<Rightarrow> (case map_of Object_prototype filterName of Some m \<Rightarrow> m | None \<Rightarrow> NoMember))"

fun to_text :: "member \<Rightarrow> string" where
  "to_text (Str s) = s"
| "to_text (Builtin f) = ''function '' @ f @ ''() { [native code] }''"
| "to_text PrototypeObject = ''[object Object]''"
| "to_text NoMember = []"

text \<open>Lines 437-448: the ffmpeg arguments of the filters that are switched on.\<close>

definition encoderArgs_of :: "(string \<times> bool) list \<Rightarrow> string list" where
  "encoderArgs_of fs =
     (let encoderArgsFilters =
            map filters_get (filter (\<lambda>filterName. map_of fs filterName = Some True) (own_keys fs))
      in if length encoderArgsFilters < 1 then []
         else [''-af'', join '','' (map to_text encoderArgsFilters)])"

section \<open>Streams and track advance\<close>

text \<open>
  \<open>_playYTDLStream(queue, updateFilter)\<close>, lines 434-471, up to \<open>setTimeout\<close>.  \<open>k\<close> is the
  callback the caller chains on the returned promise.  Reading \<open>streamTime\<close> of a missing
  dispatcher, or \<open>url\<close> of a missing \<open>queue.playing\<close>, throws inside the promise
  executor: the promise rejects and nothing has been done.
\<close>

definition playYTDLStream :: "player \<Rightarrow> nat \<Rightarrow> bool \<Rightarrow> cont option \<Rightarrow> error + player" where
  "playYTDLStream p r updateFilter k =
     (let q = store p r in
      case (if updateFilter
            then (case dispatcher (voiceConnection q) of
                    None \<Rightarrow> Inl TypeError
                  | Some d \<Rightarrow> Inr (Some (js_div (of_int (streamTime d)) 1000)))
            else Inr None) of
        Inl e \<Rightarrow> Inl e
      | Inr currentStreamTime \<Rightarrow>
          (case playing q of
             Obj t \<Rightarrow>
               (let newStream = \<lparr>s_url = url t, encoderArgs = encoderArgs_of (filters q),
                                 seek = currentStreamTime\<rparr>
                in Inr (p\<lparr>timers := timers p @ [\<lparr>t_queue = r, t_stream = newStream, t_cont = k\<rparr>],
                          trace := trace p @ [Ytdl newStream]\<rparr>))
           | _ \<Rightarrow> Inl TypeError))"

text \<open>
  The timeout callback, lines 455-469: the connection plays the stream through a new
  dispatcher, whose volume is set from \<open>queue.volume\<close>.
\<close>

definition timeout :: "player \<Rightarrow> player" where
  "timeout p =
     (case timers p of
        [] \<Rightarrow> p
      | t # ts \<Rightarrow>
          modify (t_queue t)
            (\<lambda>q. set_dispatcher
                   \<lparr>d_stream = t_stream t, streamTime = 0,
                    volumeLogarithmic = js_div (of_int (volume q)) 200,
                    d_paused = False, ended = False, started = False, then_cb = t_cont t\<rparr> q)
            (p\<lparr>timers := ts\<rparr>))"

text \<open>
  The dispatcher of queue \<open>r\<close> emits \<open>start\<close> (lines 461-463): the promise resolves, once,
  and the chained callback of \<open>_playTrack\<close> (lines 502-505) emits \<open>trackChanged\<close> with the
  values \<open>queue.lastSkipped\<close> and \<open>queue.repeatMode\<close> have at that moment.
\<close>

definition on_start :: "player \<Rightarrow> nat \<Rightarrow> player" where
  "on_start p r =
     (case dispatcher (voiceConnection (store p r)) of
        None \<Rightarrow> p
      | Some d \<Rightarrow>
          if started d then p
          else
            (let p1 = modify r (set_dispatcher (d\<lparr>started := True\<rparr>)) p in
             case then_cb d of
               None \<Rightarrow> p1
             | Some k \<Rightarrow>
                 if \<not> c_firstPlay k
                 then emit r (TrackChanged (c_nowPlaying k) (c_wasPlaying k)
                                (lastSkipped (store p1 r)) (repeatMode (store p1 r))) p1
                 else p1))"

text \<open>
  \<open>_playTrack(guildID, firstPlay)\<close>, lines 480-507.  With no queue for the guild,
  \<open>queue.tracks\<close> throws and the promise of the async function rejects.
\<close>

definition playTrack :: "player \<Rightarrow> snowflake \<Rightarrow> bool \<Rightarrow> unit outcome \<times> player" where
  "playTrack p g firstPlay =
     (case find_queue p g of
        None \<Rightarrow> (Rejected TypeError, p)
      | Some r \<Rightarrow>
          (let queue = store p r in
           if length (tracks queue) < 2 \<and> \<not> firstPlay \<and> \<not> repeatMode queue
           then
             (let p1 = (if leaveOnEnd (options p) \<and> \<not> stopped queue then leave r p else p);
                  p2 = p1\<lparr>queues := filter (\<lambda>r'. guildID (store p1 r') \<noteq> g) (queues p1)\<rparr>
              in if stopped queue
                 then (Resolved (), emit r Stop (if leaveOnStop (options p2) then leave r p2 else p2))
                 else (Resolved (), emit r End p2))
           else
             (let wasPlaying = playing queue;
                  (nowPlaying, rest) =
                     (if repeatMode queue then (wasPlaying, tracks queue) else shift (tracks queue));
                  p1 = modify r (\<lambda>q. q\<lparr>tracks := rest, playing := nowPlaying, lastSkipped := False\<rparr>) p
              in case playYTDLStream p1 r False
                        (Some \<lparr>c_firstPlay = firstPlay, c_nowPlaying = nowPlaying,
                               c_wasPlaying = wasPlaying\<rparr>) of
                   Inl e \<Rightarrow> (Resolved (), p1)
                 | Inr p2 \<Rightarrow> (Resolved (), p2))))"

text \<open>
  The dispatcher of queue \<open>r\<close> emits \<open>finish\<close>.  Its own listener (discord.js), which
  was registered first, takes the dispatcher off the connection; then the listener of
  lines 465-468 runs \<open>_playTrack\<close>.  The signal reaches the player after the command
  that caused it has run to completion: a stream that is being written emits
  \<open>finish\<close> from a later turn of the event loop, and the specification (section 5) has
  commands and signals of one session handled one after the other.
\<close>

definition on_finish :: "player \<Rightarrow> nat \<Rightarrow> unit outcome \<times> player" where
  "on_finish p r =
     playTrack (modify r (\<lambda>q. q\<lparr>voiceConnection := (voiceConnection q)\<lparr>dispatcher := None\<rparr>\<rparr>) p)
       (guildID (store p r)) False"

section \<open>Commands\<close>

text \<open>Lines 214-225.\<close>

definition setVolume :: "player \<Rightarrow> snowflake \<Rightarrow> int \<Rightarrow> unit outcome \<times> player" where
  "setVolume p g percent =
     (case find_queue p g of
        None \<Rightarrow> (Rejected NotPlaying, p)
      | Some r \<Rightarrow>
          (case dispatcher (voiceConnection (store p r)) of
             None \<Rightarrow> (Rejected TypeError, p)
           | Some d \<Rightarrow>
               (Resolved (),
                modify r (\<lambda>q. (set_dispatcher (d\<lparr>volumeLogarithmic := js_div (of_int percent) 200\<rparr>) q)
                                 \<lparr>volume := percent\<rparr>) p)))"

text \<open>Lines 158-169 and 176-187: both resolve with \<open>queue.tracks[0]\<close>.\<close>

definition pause :: "player \<Rightarrow> snowflake \<Rightarrow> track jsv outcome \<times> player" where
  "pause p g =
     (case find_queue p g of
        None \<Rightarrow> (Rejected NotPlaying, p)
      | Some r \<Rightarrow>
          (case dispatcher (voiceConnection (store p r)) of
             None \<Rightarrow> (Rejected TypeError, p)
           | Some d \<Rightarrow>
               (let p1 = modify r (\<lambda>q. (set_dispatcher (d\<lparr>d_paused := True\<rparr>) q)\<lparr>paused := True\<rparr>) p
                in (Resolved (js_at (tracks (store p1 r)) 0), p1))))"

definition resume :: "player \<Rightarrow> snowflake \<Rightarrow> track jsv outcome \<times> player" where
  "resume p g =
     (case find_queue p g of
        None \<Rightarrow> (Rejected NotPlaying, p)
      | Some r \<Rightarrow>
          (case dispatcher (voiceConnection (store p r)) of
             None \<Rightarrow> (Rejected TypeError, p)
           | Some d \<Rightarrow>
               (let p1 = modify r (\<lambda>q. (set_dispatcher (d\<lparr>d_paused := False\<rparr>) q)\<lparr>paused := False\<rparr>) p
                in (Resolved (js_at (tracks (store p1 r)) 0), p1))))"

text \<open>
  Lines 194-206.  \<open>stopped\<close> and \<open>tracks\<close> are written before the dispatcher is
  reached, so they stay written when it is missing.
\<close>

definition stop :: "player \<Rightarrow> snowflake \<Rightarrow> unit outcome \<times> player" where
  "stop p g =
     (case find_queue p g of
        None \<Rightarrow> (Rejected NotPlaying, p)
      | Some r \<Rightarrow>
          (let p1 = modify r (\<lambda>q. q\<lparr>stopped := True, tracks := []\<rparr>) p in
           case dispatcher (voiceConnection (store p1 r)) of
             None \<Rightarrow> (Rejected TypeError, p1)
           | Some d \<Rightarrow> (Resolved (), modify r (set_dispatcher (d\<lparr>ended := True\<rparr>)) p1)))"

text \<open>Lines 232-236 and 112-114.\<close>

definition getQueue :: "player \<Rightarrow> snowflake \<Rightarrow> nat option" where
  "getQueue p g = find_queue p g"

definition isPlaying :: "player \<Rightarrow> snowflake \<Rightarrow> bool" where
  "isPlaying p g = list_ex (\<lambda>r. guildID (store p r) = g) (queues p)"

text \<open>
  What surrounds the player.  \<open>ytsr\<close> answers a query with its items, or with an error
  (\<open>None\<close>); an item is its \<open>type\<close> and the Track object that \<open>new Track(r, null, null)\<close>
  makes of it (the class is not among the sources, and the identity of a new object is
  the allocator's choice).  \<open>video_id\<close> is the match of the query against the regular
  expression of lines 96-97.  \<open>connection_of\<close> is the connection of a voice channel: the
  one the client already has, or else the one \<open>join()\<close> gives (line 129).
\<close>

record voiceChannel =
  vc_id :: snowflake
  vc_guild_id :: snowflake

record env =
  ytsr :: "string \<Rightarrow> (string \<times> track) list option"
  video_id :: "string \<Rightarrow> string option"
  connection_of :: "voiceChannel \<Rightarrow> voiceConnection"

text \<open>
  \<open>searchTracks(query)\<close>, lines 94-105.  On an error of \<open>ytsr\<close> the callback returns
  without resolving: the promise never settles.
\<close>

definition searchTracks :: "env \<Rightarrow> string \<Rightarrow> track list outcome" where
  "searchTracks e query =
     (let query' = (case video_id e query of Some v \<Rightarrow> v | None \<Rightarrow> query) in
      case ytsr e query' of
        None \<Rightarrow> Pending
      | Some items \<Rightarrow> Resolved (map snd (filter (\<lambda>i. fst i = ''video'') items)))"

text \<open>
  Modelled from the spec: the class \<open>Queue\<close> (\<open>./Queue\<close>) is not among the sources.  A
  session that has just been created has an empty pending sequence, no current track
  and its flags off (specification, section 3); the volume is a percent, and a new
  session is taken at 100.  Lines 135-140 then give it the connection and switch every
  filter of the table off.
\<close>

definition new_queue :: "snowflake \<Rightarrow> voiceConnection \<Rightarrow> queue" where
  "new_queue g connection =
     \<lparr>guildID = g, voiceConnection = connection,
      filters = foldl (\<lambda>acc f. js_set f False acc) [] (own_keys ffmpeg_filters),
      tracks = [], playing = Undefined, volume = 100,
      paused = False, stopped = False, repeatMode = False, lastSkipped = False\<rparr>"

datatype track_arg = Name string | Given track

text \<open>
  \<open>play(voiceChannel, track, user)\<close>, lines 123-151, for a voice channel object (the
  guard of line 126 then does not fire).  Line 124 drops the queues whose \<open>guildID\<close>
  equals \<open>voiceChannel.id\<close>; line 135 keys the new queue by \<open>voiceChannel.guild.id\<close>.
  With no search result, \<open>track.requestedBy\<close> throws inside the async executor and the
  promise never settles.  \<open>_playTrack\<close> is not awaited.
\<close>

definition play :: "env \<Rightarrow> player \<Rightarrow> voiceChannel \<Rightarrow> track_arg \<Rightarrow> user option \<Rightarrow> track outcome \<times> player" where
  "play e p voiceChannel track user =
     (let p1 = p\<lparr>queues := filter (\<lambda>r. guildID (store p r) \<noteq> vc_id voiceChannel) (queues p)\<rparr>;
          connection = connection_of e voiceChannel;
          found = (case track of
                     Given t \<Rightarrow> Resolved (Obj t)
                   | Name s \<Rightarrow>
                       (case searchTracks e s of
                          Resolved results \<Rightarrow> Resolved (js_at (map Obj results) 0)
                        | Rejected x \<Rightarrow> Rejected x
                        | Pending \<Rightarrow> Pending
                        | Thrown x \<Rightarrow> Thrown x))
      in case found of
           Resolved (Obj t) \<Rightarrow>
             (let t' = t\<lparr>requestedBy := user\<rparr>;
                  queue = (new_queue (vc_guild_id voiceChannel) connection)\<lparr>tracks := [Obj t']\<rparr>;
                  r = fresh p1;
                  p2 = p1\<lparr>store := (store p1)(r := queue), fresh := Suc r,
                          queues := queues p1 @ [r]\<rparr>
              in (Resolved t', snd (playTrack p2 (guildID queue) True)))
         | _ \<Rightarrow> (Pending, p1))"

text \<open>
  The members of class \<open>Player\<close> that take a query and promise tracks.  The class (lines
  41-508, no superclass) declares \<open>searchTracks\<close>; it declares no member \<open>search\<close>.
\<close>

definition Player_members :: "(string \<times> (env \<Rightarrow> string \<Rightarrow> track list outcome)) list" where
  "Player_members = [(''searchTracks'', searchTracks)]"

text \<open>
  \<open>addToQueue(guildID, trackName, requestedBy)\<close>, lines 245-262.  Line 251 calls
  \<open>this.search\<close>; calling a member that the object does not have throws \<open>TypeError\<close>
  inside the promise executor, which rejects the promise with it.
\<close>

definition addToQueue :: "env \<Rightarrow> player \<Rightarrow> snowflake \<Rightarrow> string \<Rightarrow> user option \<Rightarrow> track outcome \<times> player" where
  "addToQueue e p g trackName requester =
     (case find_queue p g of
        None \<Rightarrow> (Rejected NotPlaying, p)
      | Some r \<Rightarrow>
          (case map_of Player_members ''search'' of
             None \<Rightarrow> (Rejected TypeError, p)
           | Some search \<Rightarrow>
               (case search e trackName of
                  Resolved track \<Rightarrow>
                    (case track of
                       [] \<Rightarrow> (Rejected TrackNotFound, p)
                     | t # _ \<Rightarrow>
                         (let t' = t\<lparr>requestedBy := requester\<rparr>
                          in (Resolved t', modify r (\<lambda>q. q\<lparr>tracks := tracks q @ [Obj t']\<rparr>) p)))
                | Pending \<Rightarrow> (Pending, p)
                | _ \<Rightarrow> (Rejected TrackNotFound, p))))"

text \<open>Lines 270-280.\<close>

definition setQueue :: "player \<Rightarrow> snowflake \<Rightarrow> track list \<Rightarrow> nat outcome \<times> player" where
  "setQueue p g ts =
     (case find_queue p g of
        None \<Rightarrow> (Rejected NotPlaying, p)
      | Some r \<Rightarrow> (Resolved r, modify r (\<lambda>q. q\<lparr>tracks := map Obj ts\<rparr>) p))"

text \<open>Lines 287-298: \<open>queue.tracks = [queue.tracks.shift()]\<close>.\<close>

definition clearQueue :: "player \<Rightarrow> snowflake \<Rightarrow> nat outcome \<times> player" where
  "clearQueue p g =
     (case find_queue p g of
        None \<Rightarrow> (Rejected NotPlaying, p)
      | Some r \<Rightarrow>
          (let currentlyPlaying = fst (shift (tracks (store p r)))
           in (Resolved r, modify r (\<lambda>q. q\<lparr>tracks := [currentlyPlaying]\<rparr>) p)))"

text \<open>
  Lines 305-317.  \<open>end()\<close> is called on the dispatcher, then \<open>lastSkipped\<close> is set; the
  \<open>finish\<close> signal follows as \<open>on_finish\<close>.
\<close>

definition skip :: "player \<Rightarrow> snowflake \<Rightarrow> track jsv outcome \<times> player" where
  "skip p g =
     (case find_queue p g of
        None \<Rightarrow> (Rejected NotPlaying, p)
      | Some r \<Rightarrow>
          (let currentTrack = js_at (tracks (store p r)) 0 in
           case dispatcher (voiceConnection (store p r)) of
             None \<Rightarrow> (Rejected TypeError, p)
           | Some d \<Rightarrow>
               (Resolved currentTrack,
                modify r (\<lambda>q. (set_dispatcher (d\<lparr>ended := True\<rparr>) q)\<lparr>lastSkipped := True\<rparr>) p)))"

text \<open>Lines 324-333.\<close>

definition nowPlaying :: "player \<Rightarrow> snowflake \<Rightarrow> track jsv outcome \<times> player" where
  "nowPlaying p g =
     (case find_queue p g of
        None \<Rightarrow> (Rejected NotPlaying, p)
      | Some r \<Rightarrow> (let currentTrack = js_at (tracks (store p r)) 0 in (Resolved currentTrack, p)))"

text \<open>Lines 341-351.\<close>

definition setRepeatMode :: "player \<Rightarrow> snowflake \<Rightarrow> bool \<Rightarrow> unit outcome \<times> player" where
  "setRepeatMode p g enabled =
     (case find_queue p g of
        None \<Rightarrow> (Rejected NotPlaying, p)
      | Some r \<Rightarrow> (Resolved (), modify r (\<lambda>q. q\<lparr>repeatMode := enabled\<rparr>) p))"

text \<open>
  \<open>xs.sort(() => Math.random() - 0.5)\<close>: the order is whatever the engine's sort makes
  of a comparator that answers at random, so the result is one of the permutations of
  the defined elements, picked by \<open>choice\<close>; \<open>sort\<close> puts \<open>undefined\<close> elements last.
\<close>

fun insert_everywhere :: "'a \<Rightarrow> 'a list \<Rightarrow> 'a list list" where
  "insert_everywhere x [] = [[x]]"
| "insert_everywhere x (y # ys) = (x # y # ys) # map ((#) y) (insert_everywhere x ys)"

fun permutations :: "'a list \<Rightarrow> 'a list list" where
  "permutations [] = [[]]"
| "permutations (x # xs) = concat (map (insert_everywhere x) (permutations xs))"

definition random_sort :: "nat \<Rightarrow> 'a jsv list \<Rightarrow> 'a jsv list" where
  "random_sort choice xs =
     (let ps = permutations (filter (\<lambda>x. x \<noteq> Undefined) xs)
      in ps ! (choice mod length ps) @ filter (\<lambda>x. x = Undefined) xs)"

text \<open>Lines 358-370.\<close>

definition shuffle :: "player \<Rightarrow> snowflake \<Rightarrow> nat \<Rightarrow> nat outcome \<times> player" where
  "shuffle p g choice =
     (case find_queue p g of
        None \<Rightarrow> (Rejected NotPlaying, p)
      | Some r \<Rightarrow>
          (let (currentTrack, rest) = shift (tracks (store p r))
           in (Resolved r, modify r (\<lambda>q. q\<lparr>tracks := currentTrack # random_sort choice rest\<rparr>) p)))"

text \<open>
  \<open>remove(guildID, track)\<close>, lines 378-399.  The \<open>null\<close> that \<open>trackFound\<close> starts with is
  overwritten on both branches.
\<close>

datatype remove_arg = Index int | TrackObj track

definition remove :: "player \<Rightarrow> snowflake \<Rightarrow> remove_arg \<Rightarrow> track jsv outcome \<times> player" where
  "remove p g track =
     (case find_queue p g of
        None \<Rightarrow> (Rejected NotPlaying, p)
      | Some r \<Rightarrow>
          (case track of
             Index i \<Rightarrow>
               (let trackFound = js_at (tracks (store p r)) i in
                if truthy trackFound
                then (Resolved trackFound,
                      modify r (\<lambda>q. q\<lparr>tracks := filter (\<lambda>t. \<not> strict_eq t trackFound) (tracks q)\<rparr>) p)
                else (Resolved trackFound, p))
           | TrackObj t \<Rightarrow>
               (let trackFound = (case find (\<lambda>s. strict_eq s (Obj t)) (tracks (store p r)) of
                                    None \<Rightarrow> Undefined | Some s \<Rightarrow> s) in
                if truthy trackFound
                then (Resolved trackFound,
                      modify r (\<lambda>q. q\<lparr>tracks := filter (\<lambda>s. \<not> strict_eq s trackFound) (tracks q)\<rparr>) p)
                else (Resolved trackFound, p))))"

text \<open>
  \<open>updateFilters(guildID, newFilters)\<close>, lines 77-87.  The promise is never resolved.
\<close>

definition updateFilters :: "player \<Rightarrow> snowflake \<Rightarrow> (string \<times> bool) list \<Rightarrow> unit outcome \<times> player" where
  "updateFilters p g newFilters =
     (case find_queue p g of
        None \<Rightarrow> (Rejected NotPlaying, p)
      | Some r \<Rightarrow>
          (let p1 = modify r (\<lambda>q. q\<lparr>filters := merge_filters newFilters (filters q)\<rparr>) p in
           case playYTDLStream p1 r True None of
             Inl x \<Rightarrow> (Pending, p1)
           | Inr p2 \<Rightarrow> (Pending, p2)))"

text \<open>
  \<open>_handleVoiceStateUpdate(oldState, newState)\<close>, lines 408-424, on the channel ids of
  the two states.
\<close>

definition handleVoiceStateUpdate :: "player \<Rightarrow> snowflake option \<Rightarrow> snowflake option \<Rightarrow> player" where
  "handleVoiceStateUpdate p oldChannelID newChannelID =
     (if \<not> leaveOnEmpty (options p) then p
      else case (oldChannelID, newChannelID) of
        (Some c, None) \<Rightarrow>
          (case find (\<lambda>r. ch_id (channel (voiceConnection (store p r))) = c) (queues p) of
             None \<Rightarrow> p
           | Some r \<Rightarrow>
               if members_size (channel (voiceConnection (store p r))) > 1 then p
               else
                 (let p1 = leave r p;
                      p2 = p1\<lparr>queues := filter (\<lambda>r'. guildID (store p1 r') \<noteq> guildID (store p1 r))
                                          (queues p1)\<rparr>
                  in emit r ChannelEmpty p2))
      | _ \<Rightarrow> p)"

section \<open>A session to run the commands on\<close>

text \<open>
  Three tracks, a voice channel 10 of guild 1 with a connection that has no dispatcher
  yet, a provider that answers every query with one video, and a player with no queue.
  Cells of the store that no reference points to hold an arbitrary queue.
\<close>

definition track_A :: track where
  "track_A = \<lparr>ref = 1, url = ''a'', requestedBy = None\<rparr>"

definition track_B :: track where
  "track_B = \<lparr>ref = 2, url = ''b'', requestedBy = None\<rparr>"

definition track_C :: track where
  "track_C = \<lparr>ref = 3, url = ''c'', requestedBy = None\<rparr>"

definition conn0 :: voiceConnection where
  "conn0 = \<lparr>channel = \<lparr>ch_id = 10, members_size = 2\<rparr>, dispatcher = None\<rparr>"

definition env0 :: env where
  "env0 = \<lparr>ytsr = (\<lambda>_. Some [(''video'', track_C)]), video_id = (\<lambda>_. None),
            connection_of = (\<lambda>_. conn0)\<rparr>"

definition vc1 :: voiceChannel where
  "vc1 = \<lparr>vc_id = 10, vc_guild_id = 1\<rparr>"

definition player0 :: player where
  "player0 = \<lparr>queues = [], options = defaultPlayerOptions, store = (\<lambda>_. new_queue 0 conn0),
               fresh = 0, timers = [], trace = []\<rparr>"

text \<open>\<open>play(vc1, A)\<close> has returned; the timeout of its stream has not fired yet.\<close>

definition just_played :: player where
  "just_played = snd (play env0 player0 vc1 (Given track_A) None)"

text \<open>Then the timeout, and the \<open>start\<close> of the dispatcher: A is streaming.\<close>

definition first_started :: player where
  "first_started = on_start (timeout just_played) 0"

text \<open>Then \<open>setQueue(1, [B, C])\<close>: two tracks are pending behind A.\<close>

definition two_pending :: player where
  "two_pending = snd (setQueue first_started 1 [track_B, track_C])"

text \<open>Then A finishes, and the next stream starts.\<close>

definition second_started :: player where
  "second_started = on_start (timeout (snd (on_finish two_pending 0))) 0"

text \<open>
  Or else a second \<open>play(vc1, B)\<close> while A streams.  Queue 0 stays registered (line
  124 compares with the channel's id), and \<open>_playTrack(1, true)\<close> finds it first and
  shifts its empty \<open>tracks\<close>: queue 0 has a dispatcher and no current track.
\<close>

definition played_twice :: player where
  "played_twice = snd (play env0 first_started vc1 (Given track_B) None)"

text \<open>Or else \<open>setQueue(1, [B, C, B])\<close>: the same Track object is pending twice.\<close>

definition dup_pending :: player where
  "dup_pending = snd (setQueue first_started 1 [track_B, track_C, track_B])"

text \<open>The dispatcher of queue \<open>r\<close> has played for another \<open>ms\<close> milliseconds.\<close>

definition elapse :: "nat \<Rightarrow> int \<Rightarrow> player \<Rightarrow> player" where
  "elapse r ms p =
     (case dispatcher (voiceConnection (store p r)) of
        None \<Rightarrow> p
      | Some d \<Rightarrow> modify r (set_dispatcher (d\<lparr>streamTime := streamTime d + ms\<rparr>)) p)"

fun is_event :: "effect \<Rightarrow> bool" where
  "is_event (Emit _ _) = True"
| "is_event _ = False"

section \<open>Properties\<close>

lemma store_modify: "store (modify r f p) = (store p)(r := f (store p r))"
  and queues_modify: "queues (modify r f p) = queues p"
  and trace_modify: "trace (modify r f p) = trace p"
  and timers_modify: "timers (modify r f p) = timers p"
  by (simp_all add: modify_def)

lemma map_of_assign: "map_of (assign k v fs) = (map_of fs)(k \<mapsto> v)"
  by (induction fs) auto

lemma map_of_js_set:
  "map_of (js_set k v fs) =
     (if k = ''__proto__'' \<and> map_of fs k = None then map_of fs else (map_of fs)(k \<mapsto> v))"
  by (cases "k = ''__proto__''") (auto simp: js_set_def map_of_assign)

lemma set_own_keys: "set (own_keys obj) = fst ` set obj"
proof -
  have "set (own_keys obj) =
          {k \<in> fst ` set obj. array_index k \<noteq> None} \<union> {k \<in> fst ` set obj. array_index k = None}"
    by (force simp: own_keys_def Let_def split: option.splits)
  then show ?thesis by auto
qed

lemma map_of_foldl_js_set:
  "map_of (foldl (\<lambda>acc k. case map_of nf k of None \<Rightarrow> acc | Some v \<Rightarrow> js_set k v acc) fs ks) x =
     (if x \<in> set ks \<and> map_of nf x \<noteq> None \<and> \<not> (x = ''__proto__'' \<and> map_of fs x = None)
      then map_of nf x else map_of fs x)"
proof (induction ks arbitrary: fs)
  case Nil
  then show ?case by simp
next
  case (Cons k ks)
  show ?case
  proof (cases "map_of nf k")
    case None
    then show ?thesis using Cons.IH [of fs] by auto
  next
    case (Some v)
    show ?thesis
    proof (cases "k = ''__proto__'' \<and> map_of fs k = None")
      case True
      then have k: "k = ''__proto__''" and n: "map_of fs ''__proto__'' = None"
        by auto
      then have "js_set k v fs = fs"
        by (simp add: js_set_def)
      then show ?thesis using Some k n Cons.IH [of fs] by auto
    next
      case False
      then have m: "map_of (js_set k v fs) = (map_of fs)(k \<mapsto> v)"
        by (auto simp: map_of_js_set)
      have ih: "map_of (foldl (\<lambda>acc k. case map_of nf k of None \<Rightarrow> acc | Some v \<Rightarrow> js_set k v acc)
                          (js_set k v fs) ks) x =
                (if x \<in> set ks \<and> map_of nf x \<noteq> None \<and>
                    \<not> (x = ''__proto__'' \<and> map_of (js_set k v fs) x = None)
                 then map_of nf x else map_of (js_set k v fs) x)"
        by (rule Cons.IH)
      show ?thesis
      proof (cases "x = k")
        case True
        then have mx: "map_of (js_set k v fs) x = Some v"
          using m by simp
        have r: "map_of (foldl (\<lambda>acc k. case map_of nf k of None \<Rightarrow> acc | Some v \<Rightarrow> js_set k v acc)
                          (js_set k v fs) ks) k = Some v"
          using ih mx Some True by auto
        from False have "\<not> (k = ''__proto__'' \<and> map_of fs k = None)"
          by simp
        then show ?thesis using Some True r by auto
      next
        case neq: False
        then have mx: "map_of (js_set k v fs) x = map_of fs x"
          using m by simp
        show ?thesis using Some neq by (auto simp: ih mx)
      qed
    qed
  qed
qed

lemma map_of_merge_filters:
  "map_of (merge_filters nf fs) x =
     (if x = ''__proto__'' \<and> map_of fs x = None then None else (map_of fs ++ map_of nf) x)"
proof -
  have "x \<in> set (own_keys nf) \<longleftrightarrow> map_of nf x \<noteq> None"
    by (simp add: set_own_keys map_of_eq_None_iff)
  then show ?thesis
    unfolding merge_filters_def map_of_foldl_js_set
    by (cases "map_of nf x") (auto simp: map_add_def)
qed


lemma playYTDLStream_Inr:
  assumes "playYTDLStream p r u k = Inr p'"
  shows "store p' = store p \<and> queues p' = queues p \<and>
         filter is_event (trace p') = filter is_event (trace p)"
  using assms
  by (auto simp: playYTDLStream_def Let_def split: if_splits option.splits jsv.splits)

lemma playYTDLStream_restart:
  assumes "dispatcher (voiceConnection (store p r)) = Some d" and "playing (store p r) = Obj t"
  shows "playYTDLStream p r True k =
           Inr (p\<lparr>timers := timers p @
                      [\<lparr>t_queue = r,
                        t_stream = \<lparr>s_url = url t, encoderArgs = encoderArgs_of (filters (store p r)),
                                    seek = Some (js_div (of_int (streamTime d)) 1000)\<rparr>,
                        t_cont = k\<rparr>],
                   trace := trace p @
                      [Ytdl \<lparr>s_url = url t, encoderArgs = encoderArgs_of (filters (store p r)),
                             seek = Some (js_div (of_int (streamTime d)) 1000)\<rparr>]\<rparr>)"
  using assms by (simp add: playYTDLStream_def Let_def)

lemma start_without_callback:
  assumes "timers p = [\<lparr>t_queue = r, t_stream = st, t_cont = None\<rparr>]"
  shows "trace (on_start (timeout p) r) = trace p"
  using assms
  by (simp add: timeout_def on_start_def modify_def set_dispatcher_def)

lemma filter_unique_at:
  assumes "i < length xs" and "P (xs ! i)" and "length (filter P xs) = 1"
  shows "filter (\<lambda>x. \<not> P x) xs = take i xs @ drop (Suc i) xs"
proof -
  have xs: "xs = take i xs @ xs ! i # drop (Suc i) xs"
    using assms(1) by (simp add: id_take_nth_drop)
  have "length (filter P xs) =
          length (filter P (take i xs)) + 1 + length (filter P (drop (Suc i) xs))"
    using assms(2) by (subst xs) simp
  with assms(3) have "filter P (take i xs) = []" and "filter P (drop (Suc i) xs) = []"
    by simp_all
  then have a: "filter (\<lambda>x. \<not> P x) (take i xs) = take i xs"
    and b: "filter (\<lambda>x. \<not> P x) (drop (Suc i) xs) = drop (Suc i) xs"
    by (simp_all add: filter_empty_conv)
  have "filter (\<lambda>x. \<not> P x) xs =
          filter (\<lambda>x. \<not> P x) (take i xs) @ filter (\<lambda>x. \<not> P x) (drop (Suc i) xs)"
    using assms(2) by (subst xs) simp
  with a b show ?thesis by simp
qed

lemma strict_eq_Obj_truthy: "strict_eq s (Obj t) \<Longrightarrow> truthy s"
  by (cases s) simp_all

text \<open>
  C8, as amended.  In a session whose connection has a dispatcher, \<open>setVolume(percent)\<close>
  resolves for every integer \<open>percent\<close>, in or out of 0..100: it stores \<open>percent\<close> in
  the queue and hands the JavaScript quotient \<open>percent / 200\<close> to the dispatcher.
\<close>

theorem setVolume_stores_percent:
  assumes "find_queue p g = Some r" and "dispatcher (voiceConnection (store p r)) = Some d"
  shows "fst (setVolume p g percent) = Resolved () \<and>
         volume (store (snd (setVolume p g percent)) r) = percent \<and>
         map_option volumeLogarithmic
            (dispatcher (voiceConnection (store (snd (setVolume p g percent)) r)))
           = Some (js_div (of_int percent) 200)"
  using assms by (simp add: setVolume_def store_modify set_dispatcher_def)

text \<open>\<open>setVolume(50)\<close> on the session that streams A: percent 50, gain 0.25.\<close>

theorem setVolume_50_witness:
  "find_queue first_started 1 = Some 0 \<and>
   fst (setVolume first_started 1 50) = Resolved () \<and>
   volume (store (snd (setVolume first_started 1 50)) 0) = 50 \<and>
   map_option volumeLogarithmic
      (dispatcher (voiceConnection (store (snd (setVolume first_started 1 50)) 0)))
     = Some (1 / 4)"
proof -
  have f: "find_queue first_started 1 = Some 0"
    by code_simp
  have "dispatcher (voiceConnection (store first_started 0)) \<noteq> None"
    by code_simp
  then obtain d where d: "dispatcher (voiceConnection (store first_started 0)) = Some d"
    by auto
  have q: "js_div 50 200 = 1 / 4"
    by code_simp
  show ?thesis
    using setVolume_stores_percent [OF f d, of 50] f q by simp
qed

text \<open>
  C8 as stated fails on the session for which \<open>play\<close> has just returned: its
  connection has no dispatcher before the timeout fires, line 220 throws, and
  \<open>setVolume(50)\<close> rejects with the volume left at 100.
\<close>

theorem setVolume_without_dispatcher_counterexample:
  "find_queue just_played 1 = Some 0 \<and>
   dispatcher (voiceConnection (store just_played 0)) = None \<and>
   fst (setVolume just_played 1 50) = Rejected TypeError \<and>
   volume (store (snd (setVolume just_played 1 50)) 0) = 100"
  by code_simp

text \<open>
  C10.  When the pending sequence of an existing session is empty, \<open>clearQueue\<close> and
  \<open>shuffle\<close> (whatever order the sort picks) both leave it holding the single entry
  \<open>undefined\<close>: a sequence of tracks only before, no longer one after.
\<close>

theorem clearQueue_shuffle_insert_undefined:
  assumes "find_queue p g = Some r" and "tracks (store p r) = []"
  shows "tracks (store (snd (clearQueue p g)) r) = [Undefined] \<and>
         tracks (store (snd (shuffle p g choice)) r) = [Undefined] \<and>
         list_all truthy (tracks (store p r)) \<and>
         \<not> list_all truthy (tracks (store (snd (clearQueue p g)) r)) \<and>
         \<not> list_all truthy (tracks (store (snd (shuffle p g choice)) r))"
  using assms by (simp add: clearQueue_def shuffle_def shift_def store_modify random_sort_def)

text \<open>
  On the session that streams A with nothing pending.
\<close>

theorem clearQueue_shuffle_empty_witness:
  "find_queue first_started 1 = Some 0 \<and> tracks (store first_started 0) = [] \<and>
   tracks (store (snd (clearQueue first_started 1)) 0) = [Undefined] \<and>
   tracks (store (snd (shuffle first_started 1 7)) 0) = [Undefined]"
proof -
  have f: "find_queue first_started 1 = Some 0" by code_simp
  have t: "tracks (store first_started 0) = []" by code_simp
  show ?thesis using clearQueue_shuffle_insert_undefined [OF f t, of 7] f t by simp
qed

text \<open>
  C6, as amended.  In an existing session, \<open>updateFilters\<close> writes the given toggles
  over the filter set (a toggle named \<open>__proto__\<close> is not stored) and changes nothing
  else of the queue: the current track, the pending sequence and the registry stay,
  and no event is emitted.  When the connection has a dispatcher and the queue a current
  track, one stream is requested for the url of that same track, with the arguments of
  the merged filters and a seek of the dispatcher's \<open>streamTime\<close> in seconds; its
  timeout carries no callback, so the \<open>start\<close> of the new dispatcher emits nothing
  either.
\<close>

theorem updateFilters_restarts_same_track:
  assumes "find_queue p g = Some r"
  shows "store (snd (updateFilters p g newFilters)) =
           (store p)(r := (store p r)\<lparr>filters := merge_filters newFilters (filters (store p r))\<rparr>) \<and>
         (\<forall>x. map_of (merge_filters newFilters (filters (store p r))) x =
            (if x = ''__proto__'' \<and> map_of (filters (store p r)) x = None then None
             else (map_of (filters (store p r)) ++ map_of newFilters) x)) \<and>
         queues (snd (updateFilters p g newFilters)) = queues p \<and>
         playing (store (snd (updateFilters p g newFilters)) r) = playing (store p r) \<and>
         tracks (store (snd (updateFilters p g newFilters)) r) = tracks (store p r) \<and>
         filter is_event (trace (snd (updateFilters p g newFilters))) = filter is_event (trace p) \<and>
         (\<forall>d t. dispatcher (voiceConnection (store p r)) = Some d \<longrightarrow> playing (store p r) = Obj t \<longrightarrow>
            trace (snd (updateFilters p g newFilters)) =
              trace p @ [Ytdl \<lparr>s_url = url t,
                               encoderArgs = encoderArgs_of (merge_filters newFilters (filters (store p r))),
                               seek = Some (js_div (of_int (streamTime d)) 1000)\<rparr>] \<and>
            timers (snd (updateFilters p g newFilters)) =
              timers p @ [\<lparr>t_queue = r,
                            t_stream = \<lparr>s_url = url t,
                               encoderArgs = encoderArgs_of (merge_filters newFilters (filters (store p r))),
                               seek = Some (js_div (of_int (streamTime d)) 1000)\<rparr>,
                            t_cont = None\<rparr>] \<and>
            (timers p = [] \<longrightarrow>
               trace (on_start (timeout (snd (updateFilters p g newFilters))) r) =
                 trace (snd (updateFilters p g newFilters))))"
proof -
  define p1 where
    "p1 = modify r (\<lambda>q. q\<lparr>filters := merge_filters newFilters (filters q)\<rparr>) p"
  have u: "snd (updateFilters p g newFilters) =
             (case playYTDLStream p1 r True None of Inl x \<Rightarrow> p1 | Inr p2 \<Rightarrow> p2)"
    using assms by (simp add: updateFilters_def p1_def Let_def split: sum.splits)
  have s1: "store p1 = (store p)(r := (store p r)\<lparr>filters := merge_filters newFilters (filters (store p r))\<rparr>)"
    and q1: "queues p1 = queues p" and t1: "trace p1 = trace p" and m1: "timers p1 = timers p"
    by (simp_all add: p1_def store_modify queues_modify trace_modify timers_modify)
  have frame: "store (snd (updateFilters p g newFilters)) = store p1 \<and>
               queues (snd (updateFilters p g newFilters)) = queues p1 \<and>
               filter is_event (trace (snd (updateFilters p g newFilters))) = filter is_event (trace p1)"
  proof (cases "playYTDLStream p1 r True None")
    case (Inl x)
    then show ?thesis by (simp add: u)
  next
    case (Inr p2)
    then show ?thesis using playYTDLStream_Inr [OF Inr] by (simp add: u)
  qed
  have restart: "trace (snd (updateFilters p g newFilters)) =
              trace p @ [Ytdl \<lparr>s_url = url t,
                               encoderArgs = encoderArgs_of (merge_filters newFilters (filters (store p r))),
                               seek = Some (js_div (of_int (streamTime d)) 1000)\<rparr>] \<and>
            timers (snd (updateFilters p g newFilters)) =
              timers p @ [\<lparr>t_queue = r,
                            t_stream = \<lparr>s_url = url t,
                               encoderArgs = encoderArgs_of (merge_filters newFilters (filters (store p r))),
                               seek = Some (js_div (of_int (streamTime d)) 1000)\<rparr>,
                            t_cont = None\<rparr>] \<and>
            (timers p = [] \<longrightarrow>
               trace (on_start (timeout (snd (updateFilters p g newFilters))) r) =
                 trace (snd (updateFilters p g newFilters)))"
    if d: "dispatcher (voiceConnection (store p r)) = Some d" and t: "playing (store p r) = Obj t"
    for d t
  proof -
    have d1: "dispatcher (voiceConnection (store p1 r)) = Some d"
      and pl1: "playing (store p1 r) = Obj t"
      and f1: "filters (store p1 r) = merge_filters newFilters (filters (store p r))"
      using d t by (simp_all add: s1)
    note r = playYTDLStream_restart [OF d1 pl1, of None, unfolded f1 t1 m1]
    have tr: "trace (snd (updateFilters p g newFilters)) =
              trace p @ [Ytdl \<lparr>s_url = url t,
                               encoderArgs = encoderArgs_of (merge_filters newFilters (filters (store p r))),
                               seek = Some (js_div (of_int (streamTime d)) 1000)\<rparr>]"
      and tm: "timers (snd (updateFilters p g newFilters)) =
              timers p @ [\<lparr>t_queue = r,
                            t_stream = \<lparr>s_url = url t,
                               encoderArgs = encoderArgs_of (merge_filters newFilters (filters (store p r))),
                               seek = Some (js_div (of_int (streamTime d)) 1000)\<rparr>,
                            t_cont = None\<rparr>]"
      by (simp_all add: u r)
    have "trace (on_start (timeout (snd (updateFilters p g newFilters))) r) =
                 trace (snd (updateFilters p g newFilters))" if "timers p = []"
      using tm that by (intro start_without_callback) simp
    with tr tm show ?thesis by blast
  qed
  from frame s1 q1 t1 restart show ?thesis
    by (simp add: map_of_merge_filters)
qed

text \<open>
  After 42 seconds of A, \<open>updateFilters({bassboost: true})\<close> asks for A again, with
  the bass filter, at second 42.
\<close>

theorem updateFilters_bassboost_witness:
  "find_queue (elapse 0 42000 first_started) 1 = Some 0 \<and>
   map_of (filters (store (snd (updateFilters (elapse 0 42000 first_started) 1 [(''bassboost'', True)])) 0)) ''bassboost'' = Some True \<and>
   playing (store (snd (updateFilters (elapse 0 42000 first_started) 1 [(''bassboost'', True)])) 0) = Obj track_A \<and>
   trace (snd (updateFilters (elapse 0 42000 first_started) 1 [(''bassboost'', True)])) =
     trace (elapse 0 42000 first_started) @
       [Ytdl \<lparr>s_url = ''a'', encoderArgs = [''-af'', ''bass=g=20,dynaudnorm=f=200''], seek = Some 42\<rparr>]"
proof -
  let ?p = "elapse 0 42000 first_started"
  have f: "find_queue ?p 1 = Some 0" by code_simp
  have "dispatcher (voiceConnection (store ?p 0)) \<noteq> None" by code_simp
  then obtain d where d: "dispatcher (voiceConnection (store ?p 0)) = Some d" by auto
  have "map_option streamTime (dispatcher (voiceConnection (store ?p 0))) = Some 42000" by code_simp
  with d have st: "streamTime d = 42000" by simp
  have q: "js_div 42000 1000 = 42" by code_simp
  have pl: "playing (store ?p 0) = Obj track_A" by code_simp
  have u: "url track_A = ''a''" by (simp add: track_A_def)
  have ea: "encoderArgs_of (merge_filters [(''bassboost'', True)] (filters (store ?p 0))) = [''-af'', ''bass=g=20,dynaudnorm=f=200'']"
    by code_simp
  note c = updateFilters_restarts_same_track [OF f, of "[(''bassboost'', True)]"]
  from c have m: "map_of (filters (store (snd (updateFilters ?p 1 [(''bassboost'', True)])) 0)) ''bassboost'' = Some True"
    by simp
  from c d pl have "trace (snd (updateFilters ?p 1 [(''bassboost'', True)])) =
              trace ?p @ [Ytdl \<lparr>s_url = url track_A,
                               encoderArgs = encoderArgs_of (merge_filters [(''bassboost'', True)] (filters (store ?p 0))),
                               seek = Some (js_div (of_int (streamTime d)) 1000)\<rparr>]"
    by blast
  then have t: "trace (snd (updateFilters ?p 1 [(''bassboost'', True)])) =
       trace ?p @ [Ytdl \<lparr>s_url = ''a'', encoderArgs = [''-af'', ''bass=g=20,dynaudnorm=f=200''], seek = Some 42\<rparr>]"
    by (simp add: st u ea q)
  from c pl have "playing (store (snd (updateFilters ?p 1 [(''bassboost'', True)])) 0) = Obj track_A"
    by simp
  with f m t show ?thesis by simp
qed

text \<open>
  C6 as stated fails on the session for which \<open>play\<close> has just returned: its
  connection has no dispatcher before the timeout fires, line 436 throws, and
  \<open>updateFilters({bassboost: true})\<close> switches the filter on but requests no stream and
  sets no timeout.  Nor does it after a second \<open>play\<close>, on the queue that has a
  dispatcher and no current track (line 449 throws).  And
  \<open>updateFilters({__proto__: true})\<close> on the session that streams A stores no such
  toggle.
\<close>

theorem updateFilters_without_dispatcher_counterexample:
  "find_queue just_played 1 = Some 0 \<and>
   dispatcher (voiceConnection (store just_played 0)) = None \<and>
   map_of (filters (store (snd (updateFilters just_played 1 [(''bassboost'', True)])) 0)) ''bassboost''
     = Some True \<and>
   trace (snd (updateFilters just_played 1 [(''bassboost'', True)])) = trace just_played \<and>
   timers (snd (updateFilters just_played 1 [(''bassboost'', True)])) = timers just_played \<and>
   find_queue played_twice 1 = Some 0 \<and>
   dispatcher (voiceConnection (store played_twice 0)) \<noteq> None \<and>
   playing (store played_twice 0) = Undefined \<and>
   trace (snd (updateFilters played_twice 1 [(''bassboost'', True)])) = trace played_twice \<and>
   timers (snd (updateFilters played_twice 1 [(''bassboost'', True)])) = timers played_twice \<and>
   map_of (filters (store (snd (updateFilters first_started 1 [(''__proto__'', True)])) 0)) ''__proto__''
     = None"
  by code_simp

text \<open>
  C9, as amended.  In an existing session, \<open>remove\<close> with an index that holds a
  track resolves with that track and drops every entry that is the same object (the
  entry at the index alone when the object is pending once); with a track that is
  pending it resolves with the first entry that is the same object and drops every
  such entry; with an index outside the sequence, or a track that is not pending, it
  resolves with no track and leaves the player as it was.
\<close>

theorem remove_drops_identical_entries:
  assumes "find_queue p g = Some r"
  shows "(\<forall>i t. js_at (tracks (store p r)) i = Obj t \<longrightarrow>
            fst (remove p g (Index i)) = Resolved (Obj t) \<and>
            tracks (store (snd (remove p g (Index i))) r) =
              filter (\<lambda>x. \<not> strict_eq x (Obj t)) (tracks (store p r)) \<and>
            (length (filter (\<lambda>x. strict_eq x (Obj t)) (tracks (store p r))) = 1 \<longrightarrow>
               tracks (store (snd (remove p g (Index i))) r) =
                 take (nat i) (tracks (store p r)) @ drop (Suc (nat i)) (tracks (store p r)))) \<and>
         (\<forall>i. i < 0 \<or> int (length (tracks (store p r))) \<le> i \<longrightarrow>
            remove p g (Index i) = (Resolved Undefined, p)) \<and>
         (\<forall>t s. find (\<lambda>x. strict_eq x (Obj t)) (tracks (store p r)) = Some s \<longrightarrow>
            truthy s \<and> strict_eq s (Obj t) \<and>
            fst (remove p g (TrackObj t)) = Resolved s \<and>
            tracks (store (snd (remove p g (TrackObj t))) r) =
              filter (\<lambda>x. \<not> strict_eq x s) (tracks (store p r))) \<and>
         (\<forall>t. find (\<lambda>x. strict_eq x (Obj t)) (tracks (store p r)) = None \<longrightarrow>
            remove p g (TrackObj t) = (Resolved Undefined, p))"
proof (intro conjI allI impI)
  fix i t
  assume a: "js_at (tracks (store p r)) i = Obj t"
  show "fst (remove p g (Index i)) = Resolved (Obj t)"
    using assms a by (simp add: remove_def Let_def)
  show f: "tracks (store (snd (remove p g (Index i))) r) =
          filter (\<lambda>x. \<not> strict_eq x (Obj t)) (tracks (store p r))"
    using assms a by (simp add: remove_def Let_def store_modify)
  assume one: "length (filter (\<lambda>x. strict_eq x (Obj t)) (tracks (store p r))) = 1"
  from a have i: "nat i < length (tracks (store p r))" and n: "tracks (store p r) ! nat i = Obj t"
    by (auto simp: js_at_def split: if_splits)
  have "strict_eq (tracks (store p r) ! nat i) (Obj t)"
    using n by simp
  from filter_unique_at [OF i this one] f
  show "tracks (store (snd (remove p g (Index i))) r) =
          take (nat i) (tracks (store p r)) @ drop (Suc (nat i)) (tracks (store p r))"
    by simp
next
  fix i :: int
  assume "i < 0 \<or> int (length (tracks (store p r))) \<le> i"
  then have "js_at (tracks (store p r)) i = Undefined"
    by (auto simp: js_at_def)
  then show "remove p g (Index i) = (Resolved Undefined, p)"
    using assms by (simp add: remove_def Let_def)
next
  fix t s
  assume a: "find (\<lambda>x. strict_eq x (Obj t)) (tracks (store p r)) = Some s"
  then show e: "strict_eq s (Obj t)"
    by (auto simp: find_Some_iff)
  then show ts: "truthy s"
    by (rule strict_eq_Obj_truthy)
  show "fst (remove p g (TrackObj t)) = Resolved s"
    using assms a ts by (simp add: remove_def Let_def)
  show "tracks (store (snd (remove p g (TrackObj t))) r) =
          filter (\<lambda>x. \<not> strict_eq x s) (tracks (store p r))"
    using assms a ts by (simp add: remove_def Let_def store_modify)
next
  fix t
  assume "find (\<lambda>x. strict_eq x (Obj t)) (tracks (store p r)) = None"
  then show "remove p g (TrackObj t) = (Resolved Undefined, p)"
    using assms by (simp add: remove_def Let_def)
qed

text \<open>
  With B and C pending: index 1, index 2, track B, track A.
\<close>

theorem remove_two_pending_witness:
  "find_queue two_pending 1 = Some 0 \<and>
   tracks (store two_pending 0) = [Obj track_B, Obj track_C] \<and>
   fst (remove two_pending 1 (Index 1)) = Resolved (Obj track_C) \<and>
   tracks (store (snd (remove two_pending 1 (Index 1))) 0) = [Obj track_B] \<and>
   remove two_pending 1 (Index 2) = (Resolved Undefined, two_pending) \<and>
   fst (remove two_pending 1 (TrackObj track_B)) = Resolved (Obj track_B) \<and>
   tracks (store (snd (remove two_pending 1 (TrackObj track_B))) 0) = [Obj track_C] \<and>
   remove two_pending 1 (TrackObj track_A) = (Resolved Undefined, two_pending)"
proof -
  have f: "find_queue two_pending 1 = Some 0" by code_simp
  have t: "tracks (store two_pending 0) = [Obj track_B, Obj track_C]" by code_simp
  have r: "ref track_A = 1" "ref track_B = 2" "ref track_C = 3"
    by (simp_all add: track_A_def track_B_def track_C_def)
  note c = remove_drops_identical_entries [OF f, unfolded t]
  have 1: "js_at [Obj track_B, Obj track_C] 1 = Obj track_C" by (simp add: js_at_def)
  have 2: "find (\<lambda>x. strict_eq x (Obj track_B)) [Obj track_B, Obj track_C] = Some (Obj track_B)" by simp
  have 3: "find (\<lambda>x. strict_eq x (Obj track_A)) [Obj track_B, Obj track_C] = None" by (simp add: r)
  from c have c1: "fst (remove two_pending 1 (Index 1)) = Resolved (Obj track_C)"
     "tracks (store (snd (remove two_pending 1 (Index 1))) 0) = filter (\<lambda>x. \<not> strict_eq x (Obj track_C)) [Obj track_B, Obj track_C]"
    using 1 by blast+
  from c have c2: "remove two_pending 1 (Index 2) = (Resolved Undefined, two_pending)"
    by simp
  from c 2 have c3: "fst (remove two_pending 1 (TrackObj track_B)) = Resolved (Obj track_B)"
    "tracks (store (snd (remove two_pending 1 (TrackObj track_B))) 0) = filter (\<lambda>x. \<not> strict_eq x (Obj track_B)) [Obj track_B, Obj track_C]"
    by blast+
  from c 3 have c4: "remove two_pending 1 (TrackObj track_A) = (Resolved Undefined, two_pending)"
    by blast
  show ?thesis using f t c1 c2 c3 c4 by (simp add: r)
qed

text \<open>
  C9 as stated fails: with B, C, B pending (the same object B twice), \<open>remove(0)\<close>
  takes two entries out, not one.  An index outside the sequence resolves with
  \<open>undefined\<close>.
\<close>

theorem remove_duplicate_counterexample:
  "tracks (store dup_pending 0) = [Obj track_B, Obj track_C, Obj track_B] \<and>
   fst (remove dup_pending 1 (Index 0)) = Resolved (Obj track_B) \<and>
   tracks (store (snd (remove dup_pending 1 (Index 0))) 0) = [Obj track_C] \<and>
   fst (remove dup_pending 1 (Index 7)) = Resolved Undefined"
  by code_simp

text \<open>
  C1 at the queue A, B, C with repeat off.  When A finishes, B becomes current with C
  pending.  When B finishes, one track is still pending, and the test of line 484
  (\<open>queue.tracks.length < 2\<close>) takes the session down: the channel is left, \<open>end\<close> is
  emitted, the queue is out of the registry, and C never becomes current.
\<close>

theorem finish_with_one_pending_ends_session: 
  "playing (store two_pending 0) = Obj track_A \<and>
   tracks (store two_pending 0) = [Obj track_B, Obj track_C] \<and>
   playing (store second_started 0) = Obj track_B \<and>
   tracks (store second_started 0) = [Obj track_C] \<and>
   queues second_started = [0] \<and>
   repeatMode (store second_started 0) = False \<and>
   queues (snd (on_finish second_started 0)) = [] \<and>
   playing (store (snd (on_finish second_started 0)) 0) = Obj track_B \<and>
   trace (snd (on_finish second_started 0)) = trace second_started @ [Leave 10, Emit 0 End]"
  by code_simp

text \<open>
  C2 fails on a second \<open>play\<close> in the same voice channel: line 124 compares the
  queues' \<open>guildID\<close> with the id of the channel (10), not of its guild (1), so the first
  queue stays and the registry holds two queues for guild 1.
\<close>

theorem play_twice_registers_two_queues:
  "queues first_started = [0] \<and> guildID (store first_started 0) = 1 \<and>
   queues (snd (play env0 first_started vc1 (Given track_B) None)) = [0, 1] \<and>
   map (\<lambda>r. guildID (store (snd (play env0 first_started vc1 (Given track_B) None)) r))
       (queues (snd (play env0 first_started vc1 (Given track_B) None))) = [1, 1]"
  by code_simp

text \<open>
  C3.  While the dispatcher streams A and B, C are pending, \<open>nowPlaying\<close>, \<open>pause\<close>
  and \<open>resume\<close> resolve with B, the head of the pending sequence; with nothing
  pending, \<open>nowPlaying\<close> resolves with \<open>undefined\<close>.
\<close>

theorem nowPlaying_resolves_head_of_pending:
  "playing (store two_pending 0) = Obj track_A \<and>
   map_option (\<lambda>d. s_url (d_stream d)) (dispatcher (voiceConnection (store two_pending 0))) = Some (url track_A) \<and>
   fst (nowPlaying two_pending 1) = Resolved (Obj track_B) \<and>
   fst (pause two_pending 1) = Resolved (Obj track_B) \<and>
   fst (resume two_pending 1) = Resolved (Obj track_B) \<and>
   playing (store first_started 0) = Obj track_A \<and>
   fst (nowPlaying first_started 1) = Resolved Undefined"
  by code_simp

text \<open>
  C4.  In an existing session \<open>addToQueue\<close> always rejects with the \<open>TypeError\<close> of
  calling \<open>this.search\<close>, and leaves the player as it was; so it does where the search
  would find track C.
\<close>

theorem addToQueue_rejects_with_TypeError: "addToQueue e p g trackName requester =
     (case find_queue p g of None \<Rightarrow> (Rejected NotPlaying, p) | Some r \<Rightarrow> (Rejected TypeError, p))
   \<and> searchTracks env0 ''song'' = Resolved [track_C]
   \<and> find_queue first_started 1 = Some 0
   \<and> fst (addToQueue env0 first_started 1 ''song'' None) = Rejected TypeError
   \<and> tracks (store (snd (addToQueue env0 first_started 1 ''song'' None)) 0) = []"
proof -
  have g: "\<And>e p g trackName requester. addToQueue e p g trackName requester =
     (case find_queue p g of None \<Rightarrow> (Rejected NotPlaying, p) | Some r \<Rightarrow> (Rejected TypeError, p))"
    by (simp add: addToQueue_def Player_members_def split: option.splits)
  have "searchTracks env0 ''song'' = Resolved [track_C]" by code_simp
  moreover have f: "find_queue first_started 1 = Some 0" by code_simp
  moreover have "tracks (store first_started 0) = []" by code_simp
  ultimately show ?thesis using g by simp
qed

text \<open>
  C5.  While A is the current track and B, C are pending, \<open>clearQueue\<close> leaves the
  pending sequence holding B: not empty, and not A.
\<close>

theorem clearQueue_keeps_head_of_pending:
  "playing (store two_pending 0) = Obj track_A \<and>
   tracks (store two_pending 0) = [Obj track_B, Obj track_C] \<and>
   tracks (store (snd (clearQueue two_pending 1)) 0) = [Obj track_B] \<and>
   playing (store (snd (clearQueue two_pending 1)) 0) = Obj track_A"
  by code_simp

text \<open>
  C7.  \<open>skip\<close> sets \<open>lastSkipped\<close>; the \<open>finish\<close> it causes runs \<open>_playTrack\<close>, which
  resets the flag (line 500) before the stream is requested; the \<open>trackChanged\<close> of the
  skip, emitted at the \<open>start\<close> of the next stream, carries \<open>lastSkipped = false\<close>.  With
  one track pending, the skip ends the session and no \<open>trackChanged\<close> is emitted.
\<close>

theorem skip_trackChanged_carries_false:
  "fst (skip two_pending 1) = Resolved (Obj track_B) \<and>
   lastSkipped (store (snd (skip two_pending 1)) 0) = True \<and>
   lastSkipped (store (snd (on_finish (snd (skip two_pending 1)) 0)) 0) = False \<and>
   trace (on_start (timeout (snd (on_finish (snd (skip two_pending 1)) 0))) 0) =
     trace two_pending @
       [Ytdl \<lparr>s_url = ''b'', encoderArgs = [], seek = None\<rparr>,
        Emit 0 (TrackChanged (Obj track_B) (Obj track_A) False False)] \<and>
   trace (snd (on_finish (snd (skip second_started 1)) 0)) =
     trace second_started @ [Leave 10, Emit 0 End]"
  by code_simp

end
